theory Spec2Isabelle
  imports Complex_Main
begin

section \<open>Python values and string operations used by \<open>mesor.py\<close>\<close>

text \<open>
  The model follows \<open>pvlib/iotools/mesor.py\<close>. Text is a list of characters; the
  characters are taken to be ASCII, so that Python's notion of whitespace is the ten
  ASCII characters below. A Python exception is a value of type \<open>error\<close>, and a
  computation that may raise returns \<open>error + 'a\<close> with \<open>Inl\<close> for the exception.
\<close>

datatype error =
    IndexError | ValueError | KeyError | AttributeError | TypeError
  | ParserError | UnknownTimeZoneError | OSError

abbreviation NL :: char where
  "NL \<equiv> CHR 0x0A"

definition get :: "error + 'a \<Rightarrow> ('a \<Rightarrow> error + 'b) \<Rightarrow> error + 'b" where
  "get r f = (case r of Inl e \<Rightarrow> Inl e | Inr x \<Rightarrow> f x)"

definition isspace :: "char \<Rightarrow> bool" where
  "isspace c \<longleftrightarrow> c \<in> set [CHR 0x09, CHR 0x0A, CHR 0x0B, CHR 0x0C, CHR 0x0D,
                          CHR 0x1C, CHR 0x1D, CHR 0x1E, CHR 0x1F, CHR 0x20]"

text \<open>\<open>s.startswith(p)\<close>\<close>

fun startswith :: "string \<Rightarrow> string \<Rightarrow> bool" where
  "startswith s [] = True"
| "startswith [] (p # ps) = False"
| "startswith (c # cs) (p # ps) = (c = p \<and> startswith cs ps)"

text \<open>\<open>s.rstrip(chars)\<close>, \<open>s.lstrip(chars)\<close> and \<open>s.strip()\<close>\<close>

definition rstrip :: "string \<Rightarrow> string \<Rightarrow> string" where
  "rstrip s chars = rev (dropWhile (\<lambda>c. c \<in> set chars) (rev s))"

definition lstrip :: "string \<Rightarrow> string \<Rightarrow> string" where
  "lstrip s chars = dropWhile (\<lambda>c. c \<in> set chars) s"

definition strip :: "string \<Rightarrow> string" where
  "strip s = rev (dropWhile isspace (rev (dropWhile isspace s)))"

text \<open>
  \<open>s.split()\<close> without arguments: the maximal runs of non-whitespace characters, in
  order. A character that is not whitespace opens a new word when the next character
  is whitespace (or the text ends), and extends the first word of the rest otherwise.
\<close>

fun split :: "string \<Rightarrow> string list" where
  "split [] = []"
| "split [c] = (if isspace c then [] else [[c]])"
| "split (c # d # cs) =
     (if isspace c then split (d # cs)
      else if isspace d then [c] # split (d # cs)
      else (case split (d # cs) of [] \<Rightarrow> [[c]] | w # ws \<Rightarrow> (c # w) # ws))"

text \<open>\<open>s.split(sep)\<close> for a separator of one character: empty pieces are kept.\<close>

fun split_on :: "char \<Rightarrow> string \<Rightarrow> string list" where
  "split_on sep [] = [[]]"
| "split_on sep (c # cs) =
     (if c = sep then [] # split_on sep cs
      else (case split_on sep cs of [] \<Rightarrow> [[c]] | w # ws \<Rightarrow> (c # w) # ws))"

text \<open>\<open>sep.join(xs)\<close>\<close>

fun join :: "string \<Rightarrow> string list \<Rightarrow> string" where
  "join sep [] = []"
| "join sep [x] = x"
| "join sep (x # y # ys) = x @ sep @ join sep (y # ys)"

text \<open>
  \<open>s.replace(old, new)\<close>: every occurrence of \<open>old\<close>, found from left to right
  without overlap, is replaced. Every call in the source has a non-empty \<open>old\<close>.
\<close>

function replace :: "string \<Rightarrow> string \<Rightarrow> string \<Rightarrow> string" where
  "replace s old new =
     (if old = [] then new @ concat (map (\<lambda>c. c # new) s)
      else if s = [] then []
      else if startswith s old then new @ replace (drop (length old) s) old new
      else hd s # replace (tl s) old new)"
  by pat_completeness auto
termination
  by (relation "measure (\<lambda>(s, old, new). length s)") auto

declare replace.simps [simp del]

text \<open>\<open>xs[i]\<close> for a constant index \<open>i \<ge> 0\<close>: IndexError when out of range.\<close>

definition item :: "'a list \<Rightarrow> nat \<Rightarrow> error + 'a" where
  "item xs i = (if i < length xs then Inr (xs ! i) else Inl IndexError)"

text \<open>
  A Python \<open>dict\<close> with string keys, as an association list in insertion order:
  \<open>d[k] = v\<close> overwrites the value of a key that is present, in place, and appends
  the pair otherwise.
\<close>

type_synonym 'v dict = "(string \<times> 'v) list"

fun setitem :: "'v dict \<Rightarrow> string \<Rightarrow> 'v \<Rightarrow> 'v dict" where
  "setitem [] k v = [(k, v)]"
| "setitem ((k', v') # d) k v = (if k' = k then (k, v) # d else (k', v') # setitem d k v)"

definition keys :: "'v dict \<Rightarrow> string list" where
  "keys d = map fst d"

definition getitem :: "'v dict \<Rightarrow> string \<Rightarrow> error + 'v" where
  "getitem d k = (case map_of d k of None \<Rightarrow> Inl KeyError | Some v \<Rightarrow> Inr v)"

subsection \<open>\<open>float(s)\<close>\<close>

text \<open>
  A floating-point value is represented by the exact value of the decimal text it was
  read from (a rational), or by an infinity or a NaN; the rounding to binary64 is not
  modelled. \<open>float\<close> accepts surrounding whitespace, a sign, the words \<open>inf\<close>,
  \<open>infinity\<close> and \<open>nan\<close> in any case, and decimal numbers with an optional
  fraction and exponent, whose digit groups may hold single underscores between
  digits.
\<close>

datatype pyfloat = Finite rat | Infinity bool | NotANumber

definition digit_val :: "char \<Rightarrow> nat option" where
  "digit_val = map_of
     [(CHR ''0'', 0), (CHR ''1'', 1), (CHR ''2'', 2), (CHR ''3'', 3), (CHR ''4'', 4),
      (CHR ''5'', 5), (CHR ''6'', 6), (CHR ''7'', 7), (CHR ''8'', 8), (CHR ''9'', 9)]"

text \<open>
  A digit group: one or more digits; with \<open>us\<close>, one underscore may stand between
  two digits.
\<close>

fun digitpart :: "bool \<Rightarrow> string \<Rightarrow> nat list option" where
  "digitpart us [] = None"
| "digitpart us [c] = map_option (\<lambda>v. [v]) (digit_val c)"
| "digitpart us (c # d # cs) =
     (case digit_val c of
        None \<Rightarrow> None
      | Some v \<Rightarrow>
          if us \<and> d = CHR ''_'' then map_option (Cons v) (digitpart us cs)
          else map_option (Cons v) (digitpart us (d # cs)))"

definition digits_value :: "nat list \<Rightarrow> nat" where
  "digits_value ds = foldl (\<lambda>a d. 10 * a + d) 0 ds"

definition optional_digits :: "bool \<Rightarrow> string \<Rightarrow> nat list option" where
  "optional_digits us s = (if s = [] then Some [] else digitpart us s)"

definition exponent :: "bool \<Rightarrow> string \<Rightarrow> int option" where
  "exponent us s =
     (case s of
        [] \<Rightarrow> None
      | c # cs \<Rightarrow>
          if c = CHR ''-'' then map_option (\<lambda>ds. - int (digits_value ds)) (digitpart us cs)
          else if c = CHR ''+'' then map_option (\<lambda>ds. int (digits_value ds)) (digitpart us cs)
          else map_option (\<lambda>ds. int (digits_value ds)) (digitpart us s))"

definition scale10 :: "rat \<Rightarrow> int \<Rightarrow> rat" where
  "scale10 q e = (if 0 \<le> e then q * 10 ^ nat e else q / 10 ^ nat (- e))"

definition mantissa :: "bool \<Rightarrow> string \<Rightarrow> rat option" where
  "mantissa us s =
     (let ip = takeWhile (\<lambda>c. c \<noteq> CHR ''.'') s;
          rest = dropWhile (\<lambda>c. c \<noteq> CHR ''.'') s
      in if rest = [] then map_option (\<lambda>ds. of_nat (digits_value ds)) (digitpart us ip)
         else if ip = [] \<and> tl rest = [] then None
         else (case (optional_digits us ip, optional_digits us (tl rest)) of
                 (Some ids, Some fds) \<Rightarrow>
                   Some (scale10 (of_nat (digits_value (ids @ fds))) (- int (length fds)))
               | _ \<Rightarrow> None))"

definition is_e :: "char \<Rightarrow> bool" where
  "is_e c \<longleftrightarrow> c = CHR ''e'' \<or> c = CHR ''E''"

definition decimal :: "bool \<Rightarrow> string \<Rightarrow> rat option" where
  "decimal us s =
     (let m = takeWhile (\<lambda>c. \<not> is_e c) s;
          rest = dropWhile (\<lambda>c. \<not> is_e c) s
      in case mantissa us m of
           None \<Rightarrow> None
         | Some q \<Rightarrow>
             if rest = [] then Some q
             else map_option (scale10 q) (exponent us (tl rest)))"

text \<open>Comparison with a lower-case word, ignoring the case of ASCII letters.\<close>

definition lower :: "char \<Rightarrow> char" where
  "lower c =
     (let n = (of_char c :: nat) in if 65 \<le> n \<and> n \<le> 90 then char_of (n + 32) else c)"

definition is_word :: "string \<Rightarrow> string \<Rightarrow> bool" where
  "is_word s w \<longleftrightarrow> map lower s = w"

definition signed :: "string \<Rightarrow> bool \<times> string" where
  "signed s =
     (case s of
        [] \<Rightarrow> (False, [])
      | c # cs \<Rightarrow> if c = CHR ''-'' then (True, cs) else if c = CHR ''+'' then (False, cs)
                 else (False, s))"

definition number :: "bool \<Rightarrow> string \<Rightarrow> pyfloat option" where
  "number us s =
     (let neg = fst (signed s); body = snd (signed s)
      in if is_word body ''inf'' \<or> is_word body ''infinity'' then Some (Infinity neg)
         else map_option (\<lambda>q. Finite (if neg then - q else q)) (decimal us body))"

definition float :: "string \<Rightarrow> error + pyfloat" where
  "float s =
     (let t = strip s
      in if is_word (snd (signed t)) ''nan'' then Inr NotANumber
         else (case number True t of None \<Rightarrow> Inl ValueError | Some x \<Rightarrow> Inr x))"

section \<open>The metadata record and the header loop of \<open>parse_mesor\<close>\<close>

text \<open>
  \<open>meta\<close> is the dictionary built in lines 111 to 113. Its entry \<open>timezone\<close>
  starts as the empty dictionary \<open>{}\<close> and becomes a string at a \<open>#timezone\<close>
  line; an instrument parameter is a float or a string.
\<close>

datatype tzvalue = EmptyDict | TzStr string

datatype param_value = PFloat pyfloat | PStr string

record meta =
  format :: string
  IPR :: "string dict"
  location :: "string dict"
  spectral :: "string dict"
  comments :: "string list"
  timezone :: tzvalue
  instruments :: "param_value dict dict"
  channels :: "string dict"

definition initial_meta :: "string \<Rightarrow> meta" where
  "initial_meta fmt =
     \<lparr>format = fmt, IPR = [], location = [], spectral = [], comments = [],
      timezone = EmptyDict, instruments = [], channels = []\<rparr>"

text \<open>
  \<open>fbuf.readline()\<close> on the text that is left in the stream: the characters up to
  and including the next newline, or all of the rest when there is none; at the end
  of the stream it returns the empty string. The second component is what is left.
\<close>

definition readline :: "string \<Rightarrow> string \<times> string" where
  "readline fbuf =
     (let l = takeWhile (\<lambda>c. c \<noteq> NL) fbuf; rest = dropWhile (\<lambda>c. c \<noteq> NL) fbuf
      in if rest = [] then (l, []) else (l @ [NL], tl rest))"

text \<open>
  One pass through the body of the \<open>while True\<close> loop (lines 117 to 148) on the line
  just read: the loop goes on with the updated \<open>meta\<close> and \<open>names\<close>, leaves at
  \<open>break\<close>, or an exception is raised. The right-hand side of an assignment is
  evaluated before the subscript of its target. A line that matches no branch changes
  nothing.
\<close>

datatype step = Next meta "string list" | Break | Raise error

definition raising :: "error + 'a \<Rightarrow> ('a \<Rightarrow> step) \<Rightarrow> step" where
  "raising r f = (case r of Inl e \<Rightarrow> Raise e | Inr x \<Rightarrow> f x)"

definition header_step :: "string \<Rightarrow> meta \<Rightarrow> string list \<Rightarrow> step" where
  "header_step line m names =
     (if startswith line ''#comment -'' then Next m names
      else if startswith line ''#IPR'' then
        raising (item (split line) 0) (\<lambda>k.
          Next (m\<lparr>IPR := setitem (IPR m) (replace k ''#IPR.'' [])
                               (join '' '' (drop 1 (split line)))\<rparr>) names)
      else if startswith line ''#timezone'' then
        raising (item (split line) 1) (\<lambda>tz. Next (m\<lparr>timezone := TzStr tz\<rparr>) names)
      else if startswith line ''#location'' then
        raising (item (split line) 1) (\<lambda>v.
        raising (item (split_on (CHR ''.'') line) 1) (\<lambda>part.
        raising (item (split part) 0) (\<lambda>k.
          Next (m\<lparr>location := setitem (location m) (replace k '':'' []) v\<rparr>) names)))
      else if startswith line ''#spectral'' then
        raising (item (split_on (CHR ''.'') line) 1) (\<lambda>part.
        raising (item (split part) 0) (\<lambda>k.
          Next (m\<lparr>spectral := setitem (spectral m) k
                                    (join '' '' (drop 1 (split line)))\<rparr>) names))
      else if startswith line ''#channel'' then
        raising (item (split line) 1) (\<lambda>code.
          Next (m\<lparr>channels := setitem (channels m) code
                                    (join '' '' (drop 2 (split line)))\<rparr>)
               (names @ [code]))
      else if startswith line ''#comment instrument'' then
        raising (item (split line) 2) (\<lambda>instrument_id.
        raising (item (split_on (CHR '':'') (join '' '' (drop 3 (split line)))) 0)
          (\<lambda>instrument_param.
            let insts = (if instrument_id \<notin> set (keys (instruments m))
                         then setitem (instruments m) instrument_id []
                         else instruments m);
                param_value =
                  join '' '' (split (join '':'' (drop 1 (split_on (CHR '':'') line))))
            in raising (if instrument_param \<in> set [''mult_cc'', ''off_cc'', ''sensitivity'']
                        then get (float param_value) (\<lambda>x. Inr (PFloat x))
                        else Inr (PStr param_value)) (\<lambda>v.
               raising (getitem insts instrument_id) (\<lambda>d.
                 Next (m\<lparr>instruments :=
                            setitem insts instrument_id (setitem d instrument_param v)\<rparr>)
                      names))))
      else if startswith line ''#comment'' then
        Next (m\<lparr>comments := comments m @ [join '' '' (drop 1 (split line))]\<rparr>) names
      else if startswith line ''#begindata'' then Break
      else Next m names)"

text \<open>
  The loop itself. Nothing in it looks at the end of the stream: there
  \<open>readline\<close> returns the empty string, no branch matches, and the loop reads again.
  A run that never leaves the loop has the value \<open>None\<close>.
\<close>

partial_function (option) header_loop ::
  "string \<Rightarrow> meta \<Rightarrow> string list \<Rightarrow> (error + string \<times> meta \<times> string list) option"
where
  "header_loop fbuf m names =
     (case header_step (rstrip (fst (readline fbuf)) [NL]) m names of
        Next m' names' \<Rightarrow> header_loop (snd (readline fbuf)) m' names'
      | Break \<Rightarrow> Some (Inr (snd (readline fbuf), m, names))
      | Raise e \<Rightarrow> Some (Inl e))"

text \<open>
  Lines 110 to 148: the first line gives \<open>format\<close>, then the loop runs. The result
  holds the stream after the \<open>#begindata\<close> line, the metadata and the column names.
\<close>

definition header_scan :: "string \<Rightarrow> (error + string \<times> meta \<times> string list) option" where
  "header_scan fbuf =
     header_loop (snd (readline fbuf))
       (initial_meta (lstrip (rstrip (fst (readline fbuf)) [NL]) ''#'')) []"

section \<open>The table: lines 150 to 162\<close>

text \<open>
  From line 150 on, \<open>parse_mesor\<close> works through pandas. A cell of the table is the
  missing-value marker or holds the text of its field (the conversion of that text to
  the number type of its column is the library's and is not modelled). A frame is the
  list of its columns in order, each a label with its cells, one cell per row. The
  returned table is a frame with its index and the time zone of the index (\<open>None\<close>
  for a naive index).
\<close>

datatype cell = NaN | Text string

type_synonym frame = "cell list dict"

record 'ts table =
  columns :: frame
  index :: "'ts list"
  tz :: "string option"

text \<open>
  What the code leaves to pandas and the model does not fix is a parameter: a record of
  functions over which every theorem is universally quantified.
  \<^item> \<open>read_csv_other\<close>: \<open>read_csv\<close> on a data section outside the fragment modelled
    below (\<open>names\<close> and the text after \<open>#begindata\<close> are its arguments);
  \<^item> \<open>other_na\<close>: what else, beyond the texts of \<open>na_values\<close>, the library reads as
    missing in a column (its default NA strings, values it finds equal to one of the
    \<open>na_values\<close> while converting the column); the arguments are the fields of the
    column and the field;
  \<^item> \<open>add_str\<close> and \<open>add_series\<close>: \<open>+\<close> of a column and a string, and of two columns;
  \<^item> \<open>to_datetime\<close>: \<open>pd.to_datetime\<close> on a column, giving the time stamps of a
    naive index (date and time fields that carry no UTC offset);
  \<^item> \<open>tz_localize\<close>: \<open>DatetimeIndex.tz_localize\<close> of a naive index to a named zone.
\<close>

record 'ts pandas =
  read_csv_other :: "string list \<Rightarrow> string \<Rightarrow> error + frame"
  other_na :: "string list \<Rightarrow> string \<Rightarrow> bool"
  add_str :: "cell list \<Rightarrow> string \<Rightarrow> error + cell list"
  add_series :: "cell list \<Rightarrow> cell list \<Rightarrow> error + cell list"
  to_datetime :: "cell list \<Rightarrow> error + 'ts list"
  tz_localize :: "'ts list \<Rightarrow> string \<Rightarrow> error + 'ts list"

subsection \<open>\<open>pd.read_csv\<close> as called in line 150\<close>

text \<open>
  The call is \<open>read_csv(fbuf, header=None, names=names, delim_whitespace=True,
  comment='#', na_values=[-9999, -999.9])\<close>. With \<open>comment='#'\<close> a line ends at its
  first \<open>#\<close>; with \<open>delim_whitespace=True\<close> the fields of a line are its runs of
  characters other than space and tab; a line without fields is skipped.
\<close>

fun fields :: "string \<Rightarrow> string list" where
  "fields [] = []"
| "fields [c] = (if c = CHR 0x20 \<or> c = CHR 0x09 then [] else [[c]])"
| "fields (c # d # cs) =
     (if c = CHR 0x20 \<or> c = CHR 0x09 then fields (d # cs)
      else if d = CHR 0x20 \<or> d = CHR 0x09 then [c] # fields (d # cs)
      else (case fields (d # cs) of [] \<Rightarrow> [[c]] | w # ws \<Rightarrow> (c # w) # ws))"

definition csv_rows :: "string \<Rightarrow> string list list" where
  "csv_rows s =
     filter (\<lambda>r. r \<noteq> [])
       (map (\<lambda>l. fields (takeWhile (\<lambda>c. c \<noteq> CHR ''#'') l)) (split_on NL s))"

text \<open>
  The fragment of data sections that is modelled: at least one column name, no name
  twice, no double quote and no carriage return in the text, a first row with as many
  fields as there are names, and no row with more. (What the library does with a
  section whose first row is shorter, or that has no row, is left to
  \<open>read_csv_other\<close>.)
\<close>

definition plain_section :: "string list \<Rightarrow> string \<Rightarrow> bool" where
  "plain_section names s \<longleftrightarrow>
     names \<noteq> [] \<and> distinct names \<and> CHR 0x22 \<notin> set s \<and> CHR 0x0D \<notin> set s \<and>
     (case csv_rows s of [] \<Rightarrow> False | r # rs \<Rightarrow> length r = length names) \<and>
     list_all (\<lambda>r. length r \<le> length names) (csv_rows s)"

text \<open>
  \<open>na_values=[-9999, -999.9]\<close>: a field whose text is one of these numbers as Python
  prints them is missing.
\<close>

definition na_values :: "string list" where
  "na_values = [''-9999'', ''-999.9'']"

text \<open>
  Column \<open>j\<close>: a row with at most \<open>j\<close> fields has no field for it, and its cell is the
  missing-value marker.
\<close>

definition column_fields :: "string list list \<Rightarrow> nat \<Rightarrow> string list" where
  "column_fields rows j = concat (map (\<lambda>r. if j < length r then [r ! j] else []) rows)"

definition read_cell :: "'ts pandas \<Rightarrow> string list \<Rightarrow> string list \<Rightarrow> nat \<Rightarrow> cell" where
  "read_cell lib col r j =
     (if j < length r
      then (if r ! j \<in> set na_values \<or> other_na lib col (r ! j) then NaN else Text (r ! j))
      else NaN)"

definition read_column :: "'ts pandas \<Rightarrow> string list list \<Rightarrow> nat \<Rightarrow> cell list" where
  "read_column lib rows j = map (\<lambda>r. read_cell lib (column_fields rows j) r j) rows"

definition read_csv :: "'ts pandas \<Rightarrow> string list \<Rightarrow> string \<Rightarrow> error + frame" where
  "read_csv lib names s =
     (if plain_section names s
      then Inr (map (\<lambda>j. (names ! j, read_column lib (csv_rows s) j)) [0..<length names])
      else read_csv_other lib names s)"

subsection \<open>Columns of a frame\<close>

text \<open>\<open>data.drop(columns=labels)\<close>: KeyError for a label that is no column.\<close>

definition drop_columns :: "frame \<Rightarrow> string list \<Rightarrow> error + frame" where
  "drop_columns data labels =
     (if list_all (\<lambda>l. l \<in> set (keys data)) labels
      then Inr (filter (\<lambda>(l, c). l \<notin> set labels) data)
      else Inl KeyError)"

definition MESOR_VARIABLE_MAP :: "string dict" where
  "MESOR_VARIABLE_MAP =
     [(''t_air'', ''temp_air''), (''rh'', ''relative_humidity''), (''ws'', ''wind_speed''),
      (''wd'', ''wind_direction''), (''bp'', ''air_pressure''), (''GHI'', ''ghi''),
      (''DNI'', ''dni''), (''DHI'', ''dhi'')]"

text \<open>\<open>data.rename(columns=mapper)\<close>: a label that is a key of the dictionary is replaced.\<close>

definition rename_label :: "string dict \<Rightarrow> string \<Rightarrow> string" where
  "rename_label mapper l = (case map_of mapper l of None \<Rightarrow> l | Some l' \<Rightarrow> l')"

definition rename :: "frame \<Rightarrow> string dict \<Rightarrow> frame" where
  "rename data mapper = map (\<lambda>(l, c). (rename_label mapper l, c)) data"

subsection \<open>\<open>parse_mesor\<close> and \<open>read_mesor\<close>\<close>

text \<open>
  Lines 155 to 159. \<open>zone_name\<close> is the value of \<open>tz\<close> in line 156. The comparison
  \<open>meta['timezone'] != 'TST'\<close> is true for the empty dictionary that \<open>timezone\<close>
  starts as, and a dictionary has no \<open>replace\<close>.
\<close>

definition zone_name :: "string \<Rightarrow> string" where
  "zone_name z = replace (replace z ''UTC+'' ''Etc/GMT+'') ''UTC-'' ''Etc/GMT-''"

definition localize ::
  "'ts pandas \<Rightarrow> tzvalue \<Rightarrow> frame \<Rightarrow> 'ts list \<Rightarrow> error + 'ts table"
where
  "localize lib zone data ix =
     (if zone \<noteq> TzStr ''TST'' then
        (case zone of
           EmptyDict \<Rightarrow> Inl AttributeError
         | TzStr z \<Rightarrow>
             get (tz_localize lib ix (zone_name z)) (\<lambda>ix'.
             get (drop_columns data [''date'', ''time'']) (\<lambda>data'.
               Inr \<lparr>columns = data', index = ix', tz = Some (zone_name z)\<rparr>)))
      else Inr \<lparr>columns = data, index = ix, tz = None\<rparr>)"

text \<open>
  Lines 153 to 163 on the frame that \<open>read_csv\<close> returned: the index is built from
  the columns \<open>date\<close> and \<open>time\<close> (KeyError when one of them is no column), localized,
  and the columns are renamed when \<open>map_variables\<close> is true.
\<close>

definition finish_table ::
  "'ts pandas \<Rightarrow> frame \<Rightarrow> meta \<Rightarrow> bool \<Rightarrow> error + 'ts table \<times> meta"
where
  "finish_table lib data m map_variables =
     get (getitem data ''date'') (\<lambda>d.
     get (add_str lib d '' '') (\<lambda>d1.
     get (getitem data ''time'') (\<lambda>t.
     get (add_series lib d1 t) (\<lambda>s.
     get (to_datetime lib s) (\<lambda>ix.
     get (localize lib (timezone m) data ix) (\<lambda>tab.
       Inr (if map_variables
            then tab\<lparr>columns := rename (columns tab) MESOR_VARIABLE_MAP\<rparr>
            else tab, m)))))))"

text \<open>Lines 150 to 163, after the header loop has left \<open>m\<close> and \<open>names\<close>.\<close>

definition build_table ::
  "'ts pandas \<Rightarrow> string \<Rightarrow> meta \<Rightarrow> string list \<Rightarrow> bool \<Rightarrow> error + 'ts table \<times> meta"
where
  "build_table lib fbuf m names map_variables =
     get (read_csv lib names fbuf) (\<lambda>data. finish_table lib data m map_variables)"

text \<open>
  \<open>parse_mesor(fbuf, map_variables)\<close>: \<open>None\<close> when the call does not return,
  \<open>Some (Inl e)\<close> when it raises \<open>e\<close>, \<open>Some (Inr (data, meta))\<close> when it returns.
\<close>

definition parse_mesor ::
  "'ts pandas \<Rightarrow> string \<Rightarrow> bool \<Rightarrow> (error + 'ts table \<times> meta) option"
where
  "parse_mesor lib fbuf map_variables =
     (case header_scan fbuf of
        None \<Rightarrow> None
      | Some (Inl e) \<Rightarrow> Some (Inl e)
      | Some (Inr (rest, m, names)) \<Rightarrow> Some (build_table lib rest m names map_variables))"

text \<open>
  \<open>read_mesor(filename, map_variables)\<close>: \<open>files\<close> gives the text of each file that
  \<open>open(filename, 'r')\<close> can open; the \<open>with\<close> block closes the file on every path.
\<close>

definition read_mesor ::
  "'ts pandas \<Rightarrow> (string \<Rightarrow> string option) \<Rightarrow> string \<Rightarrow> bool
     \<Rightarrow> (error + 'ts table \<times> meta) option"
where
  "read_mesor lib files filename map_variables =
     (case files filename of
        None \<Rightarrow> Some (Inl OSError)
      | Some fbuf \<Rightarrow> parse_mesor lib fbuf map_variables)"

section \<open>Notions used to state the properties\<close>

text \<open>
  The lines that successive \<open>readline\<close> calls deliver before the end of the stream,
  each without its newline, as the loop sees them.
\<close>

function stream_lines :: "string \<Rightarrow> string list" where
  "stream_lines fbuf =
     (if fbuf = [] then []
      else rstrip (fst (readline fbuf)) [NL] # stream_lines (snd (readline fbuf)))"
  by pat_completeness auto
termination
proof (relation "measure length")
  show "wf (measure length)" by simp
next
  fix fbuf :: string
  assume ne: "fbuf \<noteq> []"
  have le: "length (dropWhile (\<lambda>c. c \<noteq> NL) fbuf) \<le> length fbuf"
    by (rule length_dropWhile_le)
  have "length (snd (readline fbuf)) < length fbuf"
  proof (cases "dropWhile (\<lambda>c. c \<noteq> NL) fbuf")
    case Nil
    with ne show ?thesis by (simp add: readline_def)
  next
    case (Cons c cs)
    with le show ?thesis by (simp add: readline_def)
  qed
  then show "(snd (readline fbuf), fbuf) \<in> measure length" by simp
qed

declare stream_lines.simps [simp del]

text \<open>
  The header of a stream: the lines after the first one and before the first line that
  starts with \<open>#begindata\<close>; and whether there is such a line.
\<close>

definition header_lines :: "string \<Rightarrow> string list" where
  "header_lines fbuf =
     takeWhile (\<lambda>l. \<not> startswith l ''#begindata'') (stream_lines (snd (readline fbuf)))"

definition has_begindata :: "string \<Rightarrow> bool" where
  "has_begindata fbuf \<longleftrightarrow>
     list_ex (\<lambda>l. startswith l ''#begindata'') (stream_lines (snd (readline fbuf)))"

text \<open>
  The columns of a frame that lines 155 to 159 leave in the table (all of them under
  \<open>TST\<close>, all but \<open>date\<close> and \<open>time\<close> otherwise), and the label under which a
  column is returned.
\<close>

definition kept_frame :: "meta \<Rightarrow> frame \<Rightarrow> frame" where
  "kept_frame m data =
     filter (\<lambda>(l, c). timezone m = TzStr ''TST'' \<or> l \<notin> set [''date'', ''time'']) data"

definition output_label :: "bool \<Rightarrow> string \<Rightarrow> string" where
  "output_label map_variables l =
     (if map_variables then rename_label MESOR_VARIABLE_MAP l else l)"

text \<open>
  \<open>names\<close> and the keys of \<open>channels\<close> in step: the same codes, and the same
  order as long as no code is declared twice.
\<close>

definition in_step :: "meta \<Rightarrow> string list \<Rightarrow> bool" where
  "in_step m names \<longleftrightarrow>
     set (keys (channels m)) = set names \<and> (distinct names \<longrightarrow> keys (channels m) = names)"

text \<open>The reverse of a dictionary: values become keys.\<close>

definition reverse_dict :: "string dict \<Rightarrow> string dict" where
  "reverse_dict d = map (\<lambda>(k, v). (v, k)) d"

text \<open>\<open>instruments[ident][param]\<close> of a metadata record.\<close>

definition instrument_param :: "meta \<Rightarrow> string \<Rightarrow> string \<Rightarrow> error + param_value" where
  "instrument_param m ident param = get (getitem (instruments m) ident) (\<lambda>d. getitem d param)"

text \<open>
  An instance of the library record that can be evaluated, to run the model on
  concrete files: a time stamp is the cell it was read from, five zone names are
  known, the other NA strings are the library's documented defaults, and every data
  section outside the modelled fragment is refused.
\<close>

definition sample_add :: "cell \<Rightarrow> cell \<Rightarrow> cell" where
  "sample_add a b = (case (a, b) of (Text x, Text y) \<Rightarrow> Text (x @ y) | _ \<Rightarrow> NaN)"

definition sample_pandas :: "cell pandas" where
  "sample_pandas =
     \<lparr>read_csv_other = (\<lambda>names s. Inl ParserError),
      other_na = (\<lambda>col x. x \<in> set [''#N/A'', ''#N/A N/A'', ''#NA'', ''-1.#IND'', ''-1.#QNAN'',
                    ''-NaN'', ''-nan'', ''1.#IND'', ''1.#QNAN'', ''<NA>'', ''N/A'', ''NA'',
                    ''NULL'', ''NaN'', ''None'', ''n/a'', ''nan'', ''null'']),
      add_str = (\<lambda>col s. Inr (map (\<lambda>c. sample_add c (Text s)) col)),
      add_series = (\<lambda>a b. Inr (map (\<lambda>(x, y). sample_add x y) (zip a b))),
      to_datetime = (\<lambda>col. Inr col),
      tz_localize = (\<lambda>ix z.
        if z \<in> set [''UTC'', ''Etc/GMT+1'', ''Etc/GMT-1'', ''Etc/GMT+2'', ''Etc/GMT-2'']
        then Inr ix else Inl UnknownTimeZoneError)\<rparr>"

text \<open>Sample files. The first holds nothing but its format line.\<close>

definition truncated_file :: string where
  "truncated_file = ''#MESOR'' @ [NL]"

definition units_file :: string where
  "units_file =
     ''#MESOR'' @ [NL] @
     ''#comment instrument 12 sensitivity: 14.7 uV/Wm-2'' @ [NL] @
     ''#begindata'' @ [NL]"

definition station_header :: string where
  "station_header =
     ''#MESOR'' @ [NL] @
     ''#timezone UTC+1'' @ [NL] @
     ''#channel date day'' @ [NL] @
     ''#channel time hour'' @ [NL] @
     ''#channel GHI global'' @ [NL] @
     ''#channel NoMV count'' @ [NL] @
     ''#begindata'' @ [NL]"

definition station_data :: string where
  "station_data = ''2005-02-01 01:00 -9999 0.0'' @ [NL]"

definition station_file :: string where
  "station_file = station_header @ station_data"

definition ragged_data :: string where
  "ragged_data =
     ''2005-02-01 01:00 5.0 1.0'' @ [NL] @
     ''2005-02-01 02:00 6.0'' @ [NL]"

definition ragged_file :: string where
  "ragged_file = station_header @ ragged_data"

definition no_timezone_file :: string where
  "no_timezone_file =
     ''#MESOR'' @ [NL] @
     ''#channel date day'' @ [NL] @
     ''#channel time hour'' @ [NL] @
     ''#begindata'' @ [NL] @
     ''2005-02-01 01:00'' @ [NL]"


definition lowercase_file :: string where
  "lowercase_file =
     ''#MESOR'' @ [NL] @
     ''#timezone UTC+1'' @ [NL] @
     ''#channel date day'' @ [NL] @
     ''#channel time hour'' @ [NL] @
     ''#channel ghi global'' @ [NL] @
     ''#begindata'' @ [NL] @
     ''2005-02-01 01:00 5.0'' @ [NL]"

definition header_meta :: "string \<Rightarrow> string dict \<Rightarrow> meta" where
  "header_meta zone chans =
     \<lparr>format = ''MESOR'', IPR = [], location = [], spectral = [], comments = [],
      timezone = TzStr zone, instruments = [], channels = chans\<rparr>"

definition station_meta :: meta where
  "station_meta =
     header_meta ''UTC+1''
       [(''date'', ''day''), (''time'', ''hour''), (''GHI'', ''global''), (''NoMV'', ''count'')]"

declare header_loop.simps [code]

section \<open>The header loop at the end of the stream\<close>

text \<open>
  The loop can only return when there is text left to read: at the end of the stream
  every pass reads the empty string and goes round again.
\<close>

lemma header_loop_needs_input:
  assumes r: "header_loop fbuf m names = Some y"
  shows "fbuf \<noteq> []"
proof (rule header_loop.raw_induct [where P = "\<lambda>fbuf m names y. fbuf \<noteq> []", OF _ r])
  fix loop :: "string \<Rightarrow> meta \<Rightarrow> string list \<Rightarrow> (error + string \<times> meta \<times> string list) option"
  fix fbuf m names y
  assume IH: "\<And>fbuf m names y. loop fbuf m names = Some y \<Longrightarrow> fbuf \<noteq> []"
    and eq: "(case header_step (rstrip (fst (readline fbuf)) [NL]) m names of
               Next m' names' \<Rightarrow> loop (snd (readline fbuf)) m' names'
             | Break \<Rightarrow> Some (Inr (snd (readline fbuf), m, names))
             | Raise e \<Rightarrow> Some (Inl e)) = Some y"
  show "fbuf \<noteq> []"
  proof
    assume "fbuf = []"
    with eq have "loop [] m names = Some y"
      by (simp add: readline_def rstrip_def header_step_def)
    with IH show False by blast
  qed
qed

lemma header_loop_eof: "header_loop [] m names = None"
  using header_loop_needs_input [of "[]" m names] by (cases "header_loop [] m names") auto

text \<open>
  Claim C1. A stream that ends before a line starting with \<open>#begindata\<close> should make
  the call fail with a truncated-header error. On the file that holds only the line
  \<open>#MESOR\<close> the call does not fail: it never returns.
\<close>

theorem parse_mesor_truncated_header:
  "parse_mesor lib truncated_file map_variables = None"
  by (simp add: parse_mesor_def header_scan_def truncated_file_def readline_def header_loop_eof)

section \<open>The zone name of lines 156 and 157\<close>

lemma replace_Nil: "replace [] old new = (if old = [] then new else [])"
  by (simp add: replace.simps [of "[]"])

lemma replace_Cons:
  "old \<noteq> [] \<Longrightarrow> replace (c # cs) old new =
     (if startswith (c # cs) old then new @ replace (drop (length old) (c # cs)) old new
      else c # replace cs old new)"
  by (simp add: replace.simps [of "c # cs"])

lemma replace_absent: "p \<notin> set s \<Longrightarrow> replace s (p # ps) new = s"
  by (induction s) (auto simp: replace_Nil replace_Cons)

text \<open>
  Claim C6. For a time zone written \<open>UTC+N\<close> or \<open>UTC-N\<close> (\<open>N\<close> any text without
  the letter \<open>U\<close>, a number in particular), the zone name that line 156 computes and
  line 158 localizes to keeps the written sign: it reads \<open>Etc/GMT+N\<close> for \<open>UTC+N\<close>
  and \<open>Etc/GMT-N\<close> for \<open>UTC-N\<close>. (The comment in line 154 gives \<open>UTC-2\<close> to
  \<open>Etc/GMT+2\<close> as its example; the two \<open>replace\<close> calls do not change the sign.)
\<close>

theorem zone_name_keeps_sign:
  assumes "CHR ''U'' \<notin> set n"
  shows "zone_name (''UTC+'' @ n) = ''Etc/GMT+'' @ n \<and>
         zone_name (''UTC-'' @ n) = ''Etc/GMT-'' @ n \<and>
         (localize lib (TzStr (''UTC+'' @ n)) data ix = Inr tab \<longrightarrow> tz tab = Some (''Etc/GMT+'' @ n)) \<and>
         (localize lib (TzStr (''UTC-'' @ n)) data ix = Inr tab \<longrightarrow> tz tab = Some (''Etc/GMT-'' @ n))"
proof -
  have plus1: "replace (''UTC+'' @ n) ''UTC+'' ''Etc/GMT+'' = ''Etc/GMT+'' @ n"
    using assms by (simp add: replace_Cons replace_absent)
  have plus2: "replace (''Etc/GMT+'' @ n) ''UTC-'' ''Etc/GMT-'' = ''Etc/GMT+'' @ n"
    using assms by (intro replace_absent) simp
  have minus1: "replace (''UTC-'' @ n) ''UTC+'' ''Etc/GMT+'' = ''UTC-'' @ n"
    using assms by (simp add: replace_Cons replace_absent)
  have minus2: "replace (''UTC-'' @ n) ''UTC-'' ''Etc/GMT-'' = ''Etc/GMT-'' @ n"
    using assms by (simp add: replace_Cons replace_absent)
  have p: "zone_name (''UTC+'' @ n) = ''Etc/GMT+'' @ n"
    unfolding zone_name_def plus1 plus2 ..
  have m: "zone_name (''UTC-'' @ n) = ''Etc/GMT-'' @ n"
    unfolding zone_name_def minus1 minus2 ..
  have l: "localize lib (TzStr z) data ix = Inr tab \<Longrightarrow> z \<noteq> ''TST'' \<Longrightarrow> tz tab = Some (zone_name z)" for z
    by (auto simp: localize_def get_def split: sum.splits if_splits)
  show ?thesis using p m l [of "''UTC+'' @ n"] l [of "''UTC-'' @ n"] by simp
qed

theorem zone_name_keeps_sign_witness:
  "CHR ''U'' \<notin> set ''2'' \<and>
   zone_name ''UTC+2'' = ''Etc/GMT+2'' \<and> zone_name ''UTC-2'' = ''Etc/GMT-2'' \<and>
   localize sample_pandas (TzStr ''UTC+2'') [(''date'', []), (''time'', []), (''GHI'', [])] [] =
     Inr \<lparr>columns = [(''GHI'', [])], index = [], tz = Some ''Etc/GMT+2''\<rparr> \<and>
   localize sample_pandas (TzStr ''UTC-2'') [(''date'', []), (''time'', []), (''GHI'', [])] [] =
     Inr \<lparr>columns = [(''GHI'', [])], index = [], tz = Some ''Etc/GMT-2''\<rparr>"
proof -
  have p: "localize sample_pandas (TzStr ''UTC+2'') [(''date'', []), (''time'', []), (''GHI'', [])] [] =
     Inr \<lparr>columns = [(''GHI'', [])], index = [], tz = Some ''Etc/GMT+2''\<rparr>"
    by code_simp
  have m: "localize sample_pandas (TzStr ''UTC-2'') [(''date'', []), (''time'', []), (''GHI'', [])] [] =
     Inr \<lparr>columns = [(''GHI'', [])], index = [], tz = Some ''Etc/GMT-2''\<rparr>"
    by code_simp
  show ?thesis
    using p zone_name_keeps_sign [of "''2''" sample_pandas
        "[(''date'', []), (''time'', []), (''GHI'', [])]" "[]"
        "\<lparr>columns = [(''GHI'', [])], index = [], tz = Some ''Etc/GMT+2''\<rparr>"] m
    by simp
qed

section \<open>The wrapper \<open>read_mesor\<close>\<close>

text \<open>
  Claim C9. For a file that can be opened, \<open>read_mesor\<close> returns exactly what
  \<open>parse_mesor\<close> does on the text of the file, with the same \<open>map_variables\<close>:
  the same table and metadata, the same exception, or no return at all.
\<close>

theorem read_mesor_is_parse_mesor:
  assumes "files filename = Some fbuf"
  shows "read_mesor lib files filename map_variables = parse_mesor lib fbuf map_variables"
  using assms by (simp add: read_mesor_def)

theorem read_mesor_is_parse_mesor_witness:
  "[''station.csv'' \<mapsto> station_file] ''station.csv'' = Some station_file \<and>
   read_mesor sample_pandas [''station.csv'' \<mapsto> station_file] ''station.csv'' True =
     parse_mesor sample_pandas station_file True"
  using read_mesor_is_parse_mesor [of "[''station.csv'' \<mapsto> station_file]" "''station.csv''" station_file sample_pandas True]
  by simp

section \<open>Runs on the sample files\<close>

lemma station_file_parse:
  "parse_mesor sample_pandas station_file False =
     Some (Inr (\<lparr>columns = [(''GHI'', [NaN]), (''NoMV'', [Text ''0.0''])],
                 index = [Text ''2005-02-01 01:00''], tz = Some ''Etc/GMT+1''\<rparr>,
                station_meta))"
  by code_simp

lemma station_file_parse_mapped:
  "parse_mesor sample_pandas station_file True =
     Some (Inr (\<lparr>columns = [(''ghi'', [NaN]), (''NoMV'', [Text ''0.0''])],
                 index = [Text ''2005-02-01 01:00''], tz = Some ''Etc/GMT+1''\<rparr>,
                station_meta))"
  by code_simp


section \<open>How a table comes to be returned\<close>

lemma getitem_keys: "getitem d k = Inr v \<Longrightarrow> k \<in> set (keys d)"
  by (auto simp: getitem_def keys_def split: option.splits dest!: map_of_SomeD intro: rev_image_eqI)

lemma keys_rename: "keys (rename data mapper) = map (rename_label mapper) (keys data)"
  by (simp add: keys_def rename_def case_prod_unfold)

lemma keys_filter_labels:
  "keys (filter (\<lambda>(l, c). P l) data) = filter P (keys data)"
  by (induction data) (auto simp: keys_def)







lemma localize_Inr:
  assumes "localize lib zone data ix = Inr tab0"
  shows "(zone = TzStr ''TST'' \<and> tab0 = \<lparr>columns = data, index = ix, tz = None\<rparr>) \<or>
         (\<exists>z ix'. zone = TzStr z \<and> z \<noteq> ''TST'' \<and>
            tz_localize lib ix (zone_name z) = Inr ix' \<and>
            tab0 = \<lparr>columns = filter (\<lambda>(l, c). l \<notin> set [''date'', ''time'']) data,
                    index = ix', tz = Some (zone_name z)\<rparr>)"
  using assms
  by (cases zone) (auto simp: localize_def get_def drop_columns_def split: sum.splits if_splits)

section \<open>Time zone and the \<open>date\<close> and \<open>time\<close> columns\<close>



section \<open>Instrument lines\<close>

lemma startswith_append: "startswith s p \<longleftrightarrow> (\<exists>r. s = p @ r)"
  by (induction s p rule: startswith.induct) auto

lemma split_on_not_Nil: "split_on sep s \<noteq> []"
  by (induction s) (auto split: list.splits)

lemma join_split_on: "join [sep] (split_on sep s) = s"
proof (induction s)
  case Nil
  show ?case by simp
next
  case (Cons c cs)
  obtain w ws where ws: "split_on sep cs = w # ws"
    using split_on_not_Nil [of sep cs] by (cases "split_on sep cs") auto
  with Cons show ?case by (cases ws) auto
qed

text \<open>
  \<open>':'.join(line.split(':')[1:])\<close> is the text after the first colon (empty when
  there is no colon).
\<close>

lemma after_first_colon:
  "join [sep] (drop 1 (split_on sep s)) = tl (dropWhile (\<lambda>c. c \<noteq> sep) s)"
proof (induction s)
  case Nil
  show ?case by simp
next
  case (Cons c cs)
  obtain w ws where ws: "split_on sep cs = w # ws"
    using split_on_not_Nil [of sep cs] by (cases "split_on sep cs") auto
  show ?case
  proof (cases "c = sep")
    case True
    then show ?thesis using join_split_on [of sep cs] by simp
  next
    case False
    then show ?thesis using Cons ws by simp
  qed
qed

lemma getitem_setitem: "getitem (setitem d k v) k = Inr v"
  by (induction d) (auto simp: getitem_def)

lemma getitem_present: "k \<in> set (keys d) \<Longrightarrow> \<exists>v. getitem d k = Inr v"
  by (induction d) (auto simp: getitem_def keys_def)

lemma float_error: "float s = Inl e \<Longrightarrow> e = ValueError"
  by (auto simp: float_def Let_def split: if_splits option.splits)

lemma instrument_branch:
  assumes "startswith line ''#comment instrument''"
  shows "header_step line m names =
     raising (item (split line) 2) (\<lambda>instrument_id.
        raising (item (split_on (CHR '':'') (join '' '' (drop 3 (split line)))) 0)
          (\<lambda>instrument_param.
            let insts = (if instrument_id \<notin> set (keys (instruments m))
                         then setitem (instruments m) instrument_id []
                         else instruments m);
                param_value =
                  join '' '' (split (join '':'' (drop 1 (split_on (CHR '':'') line))))
            in raising (if instrument_param \<in> set [''mult_cc'', ''off_cc'', ''sensitivity'']
                        then get (float param_value) (\<lambda>x. Inr (PFloat x))
                        else Inr (PStr param_value)) (\<lambda>v.
               raising (getitem insts instrument_id) (\<lambda>d.
                 Next (m\<lparr>instruments :=
                            setitem insts instrument_id (setitem d instrument_param v)\<rparr>)
                      names))))"
proof -
  from assms obtain r where "line = ''#comment instrument'' @ r"
    by (auto simp: startswith_append)
  then show ?thesis by (simp add: header_step_def)
qed

text \<open>
  Claim C2, as amended. On a line that starts with \<open>#comment instrument\<close>, names an
  instrument and has one of the parameter names \<open>mult_cc\<close>, \<open>off_cc\<close>,
  \<open>sensitivity\<close>, the text after the first colon, with its whitespace normalized, is
  given to \<open>float\<close> as a whole: the pass raises ValueError exactly when that text is
  not a number, and stores the float under \<open>instruments[ident][param]\<close> otherwise. For
  the line \<open>#comment instrument 12 sensitivity: 14.7\<close> the stored value is the float
  14.7.
\<close>

theorem instrument_float_rule:
  assumes "startswith line ''#comment instrument''"
    and "item (split line) 2 = Inr ident"
    and "item (split_on (CHR '':'') (join '' '' (drop 3 (split line)))) 0 = Inr param"
    and "param \<in> set [''mult_cc'', ''off_cc'', ''sensitivity'']"
  shows "case float (join '' '' (split (tl (dropWhile (\<lambda>c. c \<noteq> CHR '':'') line)))) of
           Inl e \<Rightarrow> header_step line m names = Raise ValueError
         | Inr x \<Rightarrow> (\<exists>m'. header_step line m names = Next m' names \<and>
                      instrument_param m' ident param = Inr (PFloat x))"
proof -
  define insts where "insts = (if ident \<notin> set (keys (instruments m))
                         then setitem (instruments m) ident [] else instruments m)"
  have "ident \<in> set (keys insts)"
    using getitem_setitem [of "instruments m" ident "[]"]
    by (auto simp: insts_def dest: getitem_keys)
  then obtain d where d: "getitem insts ident = Inr d"
    using getitem_present by blast
  have colon: "join '':'' (drop 1 (split_on (CHR '':'') line)) =
      tl (dropWhile (\<lambda>c. c \<noteq> CHR '':'') line)"
    by (rule after_first_colon)
  show ?thesis
  proof (cases "float (join '' '' (split (tl (dropWhile (\<lambda>c. c \<noteq> CHR '':'') line))))")
    case (Inl e)
    then show ?thesis
      using assms(2-4) colon
      by (simp add: instrument_branch [OF assms(1)] raising_def get_def Let_def float_error)
  next
    case (Inr x)
    then show ?thesis
      using assms(2-4) colon d
      by (simp add: instrument_branch [OF assms(1)] raising_def get_def Let_def
            insts_def [symmetric] instrument_param_def getitem_setitem)
  qed
qed


theorem instrument_float_rule_witness:
  "startswith ''#comment instrument 12 sensitivity: 14.7'' ''#comment instrument'' \<and>
   item (split ''#comment instrument 12 sensitivity: 14.7'') 2 = Inr ''12'' \<and>
   item (split_on (CHR '':'')
     (join '' '' (drop 3 (split ''#comment instrument 12 sensitivity: 14.7'')))) 0 =
     Inr ''sensitivity'' \<and>
   ''sensitivity'' \<in> set [''mult_cc'', ''off_cc'', ''sensitivity''] \<and>
   float (join '' '' (split (tl (dropWhile (\<lambda>c. c \<noteq> CHR '':'')
     ''#comment instrument 12 sensitivity: 14.7'')))) = Inr (Finite (147 / 10)) \<and>
   (\<exists>m'. header_step ''#comment instrument 12 sensitivity: 14.7'' (initial_meta []) [] =
           Next m' [] \<and>
         instrument_param m' ''12'' ''sensitivity'' = Inr (PFloat (Finite (147 / 10))))"
proof -
  have a: "startswith ''#comment instrument 12 sensitivity: 14.7'' ''#comment instrument''"
    by simp
  have b: "item (split ''#comment instrument 12 sensitivity: 14.7'') 2 = Inr ''12''"
    by code_simp
  have c: "item (split_on (CHR '':'')
     (join '' '' (drop 3 (split ''#comment instrument 12 sensitivity: 14.7'')))) 0 =
     Inr ''sensitivity''"
    by code_simp
  have d: "''sensitivity'' \<in> set [''mult_cc'', ''off_cc'', ''sensitivity'']"
    by simp
  have e: "float (join '' '' (split (tl (dropWhile (\<lambda>c. c \<noteq> CHR '':'')
     ''#comment instrument 12 sensitivity: 14.7'')))) = Inr (Finite (147 / 10))"
    by code_simp
  from instrument_float_rule [OF a b c d, of "initial_meta []" "[]"] e
  have "\<exists>m'. header_step ''#comment instrument 12 sensitivity: 14.7'' (initial_meta []) [] =
           Next m' [] \<and>
         instrument_param m' ''12'' ''sensitivity'' = Inr (PFloat (Finite (147 / 10)))"
    by simp
  with a b c d e show ?thesis by blast
qed

text \<open>
  Claim C2, as first stated, fails. With a unit after the number, as in \<open>#comment instrument 12 sensitivity: 14.7 uV/Wm-2\<close>,
  the text given to \<open>float\<close> is \<open>14.7 uV/Wm-2\<close>, and the header scan raises
  ValueError.
\<close>

theorem sensitivity_with_unit_raises:
  "header_scan units_file = Some (Inl ValueError)"
  by code_simp

section \<open>A header without a \<open>#timezone\<close> line\<close>

lemma begindata_breaks:
  assumes "startswith line ''#begindata''"
  shows "header_step line m names = Break"
proof -
  from assms obtain r where "line = ''#begindata'' @ r"
    by (auto simp: startswith_append)
  then show ?thesis by (simp add: header_step_def)
qed

lemma header_step_timezone:
  assumes "header_step line m names = Next m' names'"
    and "\<not> startswith line ''#timezone''"
  shows "timezone m' = timezone m"
  using assms
  by (auto simp: header_step_def raising_def get_def Let_def split: if_splits sum.splits)

lemma stream_lines_Nil: "stream_lines [] = []"
  by (simp add: stream_lines.simps)

lemma stream_lines_Cons:
  "fbuf \<noteq> [] \<Longrightarrow>
     stream_lines fbuf = rstrip (fst (readline fbuf)) [NL] # stream_lines (snd (readline fbuf))"
  by (subst stream_lines.simps) simp

lemma header_loop_total:
  "list_ex (\<lambda>l. startswith l ''#begindata'') (stream_lines fbuf) \<Longrightarrow>
     \<exists>r. header_loop fbuf m names = Some r"
proof (induction fbuf arbitrary: m names rule: stream_lines.induct)
  case (1 fbuf)
  show ?case
  proof (cases "fbuf = []")
    case True
    with 1(2) show ?thesis by (simp add: stream_lines_Nil)
  next
    case False
    let ?line = "rstrip (fst (readline fbuf)) [NL]"
    from False 1(2) have ex: "startswith ?line ''#begindata'' \<or>
        list_ex (\<lambda>l. startswith l ''#begindata'') (stream_lines (snd (readline fbuf)))"
      by (simp add: stream_lines_Cons)
    show ?thesis
    proof (cases "header_step ?line m names")
      case (Next m' names')
      with ex have "list_ex (\<lambda>l. startswith l ''#begindata'') (stream_lines (snd (readline fbuf)))"
        using begindata_breaks [of ?line m names] by auto
      from 1(1) [OF False this, of m' names'] Next show ?thesis
        by (subst header_loop.simps) simp
    next
      case Break
      then show ?thesis by (subst header_loop.simps) simp
    next
      case (Raise e)
      then show ?thesis by (subst header_loop.simps) simp
    qed
  qed
qed

lemma header_loop_timezone:
  "header_loop fbuf m names = Some (Inr (rest, m', names')) \<Longrightarrow>
   \<forall>l \<in> set (takeWhile (\<lambda>l. \<not> startswith l ''#begindata'') (stream_lines fbuf)).
      \<not> startswith l ''#timezone'' \<Longrightarrow>
   timezone m' = timezone m"
proof (induction fbuf arbitrary: m names rule: stream_lines.induct)
  case (1 fbuf)
  show ?case
  proof (cases "fbuf = []")
    case True
    with 1(2) show ?thesis by (simp add: header_loop_eof)
  next
    case False
    let ?line = "rstrip (fst (readline fbuf)) [NL]"
    show ?thesis
    proof (cases "header_step ?line m names")
      case (Next m1 names1)
      then have nb: "\<not> startswith ?line ''#begindata''"
        using begindata_breaks [of ?line m names] by auto
      with False 1(3) have ntz: "\<not> startswith ?line ''#timezone''"
        and rest: "\<forall>l \<in> set (takeWhile (\<lambda>l. \<not> startswith l ''#begindata'')
                      (stream_lines (snd (readline fbuf)))). \<not> startswith l ''#timezone''"
        by (simp_all add: stream_lines_Cons)
      from 1(2) Next have "header_loop (snd (readline fbuf)) m1 names1 = Some (Inr (rest, m', names'))"
        by (subst (asm) header_loop.simps) simp
      from 1(1) [OF False this rest] header_step_timezone [OF Next ntz]
      show ?thesis by simp
    next
      case Break
      with 1(2) show ?thesis by (subst (asm) header_loop.simps) simp
    next
      case (Raise e)
      with 1(2) show ?thesis by (subst (asm) header_loop.simps) simp
    qed
  qed
qed

lemma build_table_no_timezone:
  "timezone m = EmptyDict \<Longrightarrow> \<exists>e. build_table lib fbuf m names map_variables = Inl e"
  by (auto simp: build_table_def finish_table_def get_def localize_def split: sum.splits)

text \<open>
  Claim C10. When the header reaches \<open>#begindata\<close> and none of its lines starts with
  \<open>#timezone\<close>, the call raises an exception and returns no table: the header loop
  leaves \<open>timezone\<close> as the empty dictionary it started as, which differs from
  \<open>'TST'\<close>, so that lines 156 to 158 raise AttributeError unless an earlier line of
  the table part has raised already.
\<close>

theorem missing_timezone_raises:
  assumes "has_begindata fbuf"
    and "\<forall>l \<in> set (header_lines fbuf). \<not> startswith l ''#timezone''"
  shows "(\<exists>e. parse_mesor lib fbuf map_variables = Some (Inl e)) \<and>
         (\<forall>rest m names. header_scan fbuf = Some (Inr (rest, m, names)) \<longrightarrow>
            timezone m = EmptyDict \<and> localize lib (timezone m) data ix = Inl AttributeError)"
proof -
  from assms(1) obtain r where r: "header_scan fbuf = Some r"
    unfolding has_begindata_def header_scan_def using header_loop_total by blast
  have tz: "timezone m = EmptyDict" if "header_scan fbuf = Some (Inr (rest, m, names))"
    for rest m names
    using that assms(2) unfolding header_scan_def header_lines_def
    using header_loop_timezone by (fastforce simp: initial_meta_def)
  have "\<exists>e. parse_mesor lib fbuf map_variables = Some (Inl e)"
  proof (cases r)
    case (Inl e)
    with r show ?thesis by (simp add: parse_mesor_def)
  next
    case (Inr t)
    obtain rest m names where t: "t = (rest, m, names)" by (cases t) auto
    from r Inr t have "timezone m = EmptyDict" by (simp add: tz)
    then obtain e where "build_table lib rest m names map_variables = Inl e"
      using build_table_no_timezone by blast
    with r Inr t show ?thesis by (simp add: parse_mesor_def)
  qed
  moreover have "localize lib EmptyDict data ix = Inl AttributeError"
    by (simp add: localize_def)
  ultimately show ?thesis using tz by simp
qed

theorem missing_timezone_raises_witness:
  "has_begindata no_timezone_file \<and>
   header_lines no_timezone_file = [''#channel date day'', ''#channel time hour''] \<and>
   header_scan no_timezone_file =
     Some (Inr (''2005-02-01 01:00'' @ [NL],
                (initial_meta ''MESOR'')\<lparr>channels := [(''date'', ''day''), (''time'', ''hour'')]\<rparr>,
                [''date'', ''time''])) \<and>
   timezone ((initial_meta ''MESOR'')\<lparr>channels := [(''date'', ''day''), (''time'', ''hour'')]\<rparr>) =
     EmptyDict \<and>
   parse_mesor sample_pandas no_timezone_file True = Some (Inl AttributeError)"
proof -
  have a: "has_begindata no_timezone_file"
    by code_simp
  have h: "header_lines no_timezone_file = [''#channel date day'', ''#channel time hour'']"
    by code_simp
  have b: "\<forall>l \<in> set (header_lines no_timezone_file). \<not> startswith l ''#timezone''"
    unfolding h by simp
  have c: "parse_mesor sample_pandas no_timezone_file True = Some (Inl AttributeError)"
    by code_simp
  have d: "header_scan no_timezone_file =
     Some (Inr (''2005-02-01 01:00'' @ [NL],
                (initial_meta ''MESOR'')\<lparr>channels := [(''date'', ''day''), (''time'', ''hour'')]\<rparr>,
                [''date'', ''time'']))"
    by code_simp
  from missing_timezone_raises [OF a b, of sample_pandas True "[]" "[]"] d
  have "timezone ((initial_meta ''MESOR'')\<lparr>channels := [(''date'', ''day''), (''time'', ''hour'')]\<rparr>) =
     EmptyDict"
    by blast
  with a h c d show ?thesis
    by blast
qed

section \<open>Channels and columns\<close>

lemma keys_setitem:
  "keys (setitem d k v) = (if k \<in> set (keys d) then keys d else keys d @ [k])"
  by (induction d k v rule: setitem.induct) (auto simp: keys_def)

lemma header_step_channels:
  assumes "header_step line m names = Next m' names'"
  shows "(channels m' = channels m \<and> names' = names) \<or>
         (\<exists>code v. channels m' = setitem (channels m) code v \<and> names' = names @ [code])"
  using assms
  by (auto simp: header_step_def raising_def get_def Let_def split: if_splits sum.splits)

lemma in_step_setitem:
  assumes "in_step m names" and "channels m' = setitem (channels m) code v"
  shows "in_step m' (names @ [code])"
  using assms by (auto simp: in_step_def keys_setitem)

lemma header_step_in_step:
  assumes "header_step line m names = Next m' names'" and "in_step m names"
  shows "in_step m' names'"
  using header_step_channels [OF assms(1)]
proof
  assume "channels m' = channels m \<and> names' = names"
  with assms(2) show ?thesis by (simp add: in_step_def)
next
  assume "\<exists>code v. channels m' = setitem (channels m) code v \<and> names' = names @ [code]"
  with assms(2) show ?thesis using in_step_setitem by blast
qed

lemma header_loop_in_step:
  "header_loop fbuf m names = Some (Inr (rest, m', names')) \<Longrightarrow> in_step m names \<Longrightarrow>
     in_step m' names'"
proof (induction fbuf arbitrary: m names rule: stream_lines.induct)
  case (1 fbuf)
  show ?case
  proof (cases "fbuf = []")
    case True
    with 1(2) show ?thesis by (simp add: header_loop_eof)
  next
    case False
    let ?line = "rstrip (fst (readline fbuf)) [NL]"
    show ?thesis
    proof (cases "header_step ?line m names")
      case (Next m1 names1)
      from 1(2) Next have "header_loop (snd (readline fbuf)) m1 names1 = Some (Inr (rest, m', names'))"
        by (subst (asm) header_loop.simps) simp
      from 1(1) [OF False this] header_step_in_step [OF Next 1(3)]
      show ?thesis by simp
    next
      case Break
      with 1(2,3) show ?thesis by (subst (asm) header_loop.simps) simp
    next
      case (Raise e)
      with 1(2) show ?thesis by (subst (asm) header_loop.simps) simp
    qed
  qed
qed

lemma header_scan_channels:
  assumes "header_scan fbuf = Some (Inr (rest, m, names))" and "distinct names"
  shows "keys (channels m) = names"
proof -
  let ?m0 = "initial_meta (lstrip (rstrip (fst (readline fbuf)) [NL]) ''#'')"
  have "in_step ?m0 []"
    by (simp add: in_step_def initial_meta_def keys_def)
  moreover from assms(1) have "header_loop (snd (readline fbuf)) ?m0 [] = Some (Inr (rest, m, names))"
    by (simp add: header_scan_def)
  ultimately have "in_step m names"
    using header_loop_in_step by blast
  with assms(2) show ?thesis by (simp add: in_step_def)
qed

section \<open>Streams without a \<open>#begindata\<close> line\<close>

lemma header_loop_returns_at_begindata:
  "header_loop fbuf m names = Some (Inr (rest, m', names')) \<Longrightarrow>
     list_ex (\<lambda>l. startswith l ''#begindata'') (stream_lines fbuf)"
proof (induction fbuf arbitrary: m names rule: stream_lines.induct)
  case (1 fbuf)
  show ?case
  proof (cases "fbuf = []")
    case True
    with 1(2) show ?thesis by (simp add: header_loop_eof)
  next
    case False
    let ?line = "rstrip (fst (readline fbuf)) [NL]"
    show ?thesis
    proof (cases "header_step ?line m names")
      case (Next m1 names1)
      from 1(2) Next have "header_loop (snd (readline fbuf)) m1 names1 = Some (Inr (rest, m', names'))"
        by (subst (asm) header_loop.simps) simp
      from 1(1) [OF False this] False show ?thesis
        by (simp add: stream_lines_Cons)
    next
      case Break
      then have "startswith ?line ''#begindata''"
        by (auto simp: header_step_def raising_def get_def Let_def split: if_splits sum.splits)
      with False show ?thesis by (simp add: stream_lines_Cons)
    next
      case (Raise e)
      with 1(2) show ?thesis by (subst (asm) header_loop.simps) simp
    qed
  qed
qed

text \<open>
  What holds of every stream without a \<open>#begindata\<close> line after its first line: no
  table is returned. The call raises on a header line it cannot take apart, or it does
  not return.
\<close>

lemma no_table_without_begindata:
  assumes "\<not> has_begindata fbuf"
  shows "parse_mesor lib fbuf map_variables = None \<or>
         (\<exists>e. parse_mesor lib fbuf map_variables = Some (Inl e))"
proof (cases "header_scan fbuf")
  case None
  then show ?thesis by (simp add: parse_mesor_def)
next
  case (Some r)
  show ?thesis
  proof (cases r)
    case (Inl e)
    with Some show ?thesis by (simp add: parse_mesor_def)
  next
    case (Inr t)
    obtain rest m names where "t = (rest, m, names)" by (cases t) auto
    with Some Inr assms show ?thesis
      unfolding has_begindata_def header_scan_def
      using header_loop_returns_at_begindata by blast
  qed
qed

section \<open>The columns of the returned table\<close>

lemma finish_table_meta:
  "finish_table lib data m map_variables = Inr (tab, m') \<Longrightarrow> m' = m"
  by (auto simp: finish_table_def get_def split: sum.splits)

lemma finish_table_Inr:
  assumes "finish_table lib data m map_variables = Inr (tab, m')"
  obtains d t ix tab0 where
    "getitem data ''date'' = Inr d"
    "getitem data ''time'' = Inr t"
    "localize lib (timezone m) data ix = Inr tab0"
    "tab = (if map_variables then tab0\<lparr>columns := rename (columns tab0) MESOR_VARIABLE_MAP\<rparr>
            else tab0)"
  using assms by (auto simp: finish_table_def get_def split: sum.splits)

lemma localize_columns:
  assumes "localize lib (timezone m) data ix = Inr tab0"
  shows "columns tab0 = kept_frame m data"
  using localize_Inr [OF assms]
proof
  assume "timezone m = TzStr ''TST'' \<and> tab0 = \<lparr>columns = data, index = ix, tz = None\<rparr>"
  then show ?thesis by (simp add: kept_frame_def)
next
  assume "\<exists>z ix'. timezone m = TzStr z \<and> z \<noteq> ''TST'' \<and>
            tz_localize lib ix (zone_name z) = Inr ix' \<and>
            tab0 = \<lparr>columns = filter (\<lambda>(l, c). l \<notin> set [''date'', ''time'']) data,
                    index = ix', tz = Some (zone_name z)\<rparr>"
  then obtain z ix' where "timezone m = TzStr z" "z \<noteq> ''TST''"
    "tab0 = \<lparr>columns = filter (\<lambda>(l, c). l \<notin> set [''date'', ''time'']) data,
            index = ix', tz = Some (zone_name z)\<rparr>"
    by blast
  then show ?thesis by (simp add: kept_frame_def)
qed

text \<open>
  Whatever frame \<open>read_csv\<close> returned: the table that \<open>parse_mesor\<close> returns holds
  the kept columns of that frame, renamed when \<open>map_variables\<close> is true and as they
  are when it is false; and \<open>date\<close> and \<open>time\<close> were labels of the frame.
\<close>

lemma returned_columns:
  assumes "header_scan fbuf = Some (Inr (rest, m, names))"
    and "read_csv lib names rest = Inr data"
    and "parse_mesor lib fbuf map_variables = Some (Inr (tab, m'))"
  shows "columns tab =
           (if map_variables then rename (kept_frame m data) MESOR_VARIABLE_MAP
            else kept_frame m data)"
    and "''date'' \<in> set (keys data)" and "''time'' \<in> set (keys data)" and "m' = m"
proof -
  from assms have ft: "finish_table lib data m map_variables = Inr (tab, m')"
    by (simp add: parse_mesor_def build_table_def get_def)
  then obtain d t ix tab0 where
    d: "getitem data ''date'' = Inr d" and t: "getitem data ''time'' = Inr t" and
    l: "localize lib (timezone m) data ix = Inr tab0" and
    tab: "tab = (if map_variables
                 then tab0\<lparr>columns := rename (columns tab0) MESOR_VARIABLE_MAP\<rparr> else tab0)"
    by (rule finish_table_Inr)
  from d show "''date'' \<in> set (keys data)" by (rule getitem_keys)
  from t show "''time'' \<in> set (keys data)" by (rule getitem_keys)
  from ft show "m' = m" by (rule finish_table_meta)
  from tab localize_columns [OF l] show "columns tab =
           (if map_variables then rename (kept_frame m data) MESOR_VARIABLE_MAP
            else kept_frame m data)"
    by simp
qed

lemma keys_kept_frame:
  "keys (kept_frame m data) =
     filter (\<lambda>l. timezone m = TzStr ''TST'' \<or> l \<notin> set [''date'', ''time'']) (keys data)"
  unfolding kept_frame_def by (rule keys_filter_labels)

lemma map_output_label:
  "map (output_label map_variables) ls =
     (if map_variables then map (rename_label MESOR_VARIABLE_MAP) ls else ls)"
  by (induction ls) (simp_all add: output_label_def)

lemma station_header_scan:
  "header_scan station_file =
     Some (Inr (station_data, station_meta, [''date'', ''time'', ''GHI'', ''NoMV'']))"
  by code_simp

lemma station_read_csv:
  "read_csv sample_pandas [''date'', ''time'', ''GHI'', ''NoMV''] station_data =
     Inr [(''date'', [Text ''2005-02-01'']), (''time'', [Text ''01:00'']),
          (''GHI'', [NaN]), (''NoMV'', [Text ''0.0''])]"
  by code_simp

section \<open>Renaming the columns\<close>

lemma rename_label_unmapped:
  "l \<notin> set (keys MESOR_VARIABLE_MAP) \<Longrightarrow> rename_label MESOR_VARIABLE_MAP l = l"
  by (simp add: rename_label_def MESOR_VARIABLE_MAP_def keys_def)

lemma rename_label_round_trip:
  "l \<notin> set (map snd MESOR_VARIABLE_MAP) \<Longrightarrow>
     rename_label (reverse_dict MESOR_VARIABLE_MAP) (rename_label MESOR_VARIABLE_MAP l) = l"
  by (simp add: rename_label_def MESOR_VARIABLE_MAP_def reverse_dict_def)

lemma rename_label_table:
  "map (rename_label MESOR_VARIABLE_MAP)
     [''t_air'', ''rh'', ''ws'', ''wd'', ''bp'', ''GHI'', ''DNI'', ''DHI''] =
   [''temp_air'', ''relative_humidity'', ''wind_speed'', ''wind_direction'', ''air_pressure'',
    ''ghi'', ''dni'', ''dhi'']"
  by (simp add: rename_label_def MESOR_VARIABLE_MAP_def)

lemma rename_cells: "map snd (rename data mapper) = map snd data"
  by (simp add: rename_def case_prod_unfold)

text \<open>
  Claim C8, as amended. Let \<open>data\<close> be the frame that \<open>read_csv\<close> returned and let a
  table be returned. With \<open>map_variables\<close> false the columns of the table are the kept
  columns of \<open>data\<close> as they are, labels and cells: nothing is renamed. With
  \<open>map_variables\<close> true they are these columns renamed through
  \<open>MESOR_VARIABLE_MAP\<close>: the cells stay, each label that is one of the eight keys
  becomes its canonical name, and a label that is no key is kept. The reverse
  dictionary gives back the label of every column whose label is not itself one of
  the canonical names.
\<close>

theorem map_variables_renames:
  assumes "header_scan fbuf = Some (Inr (rest, m, names))"
    and "read_csv lib names rest = Inr data"
    and "parse_mesor lib fbuf map_variables = Some (Inr (tab, m'))"
  shows "columns tab =
           (if map_variables then rename (kept_frame m data) MESOR_VARIABLE_MAP
            else kept_frame m data) \<and>
         keys (rename (kept_frame m data) MESOR_VARIABLE_MAP) =
           map (rename_label MESOR_VARIABLE_MAP) (keys (kept_frame m data)) \<and>
         map snd (rename (kept_frame m data) MESOR_VARIABLE_MAP) = map snd (kept_frame m data) \<and>
         map (rename_label MESOR_VARIABLE_MAP)
           [''t_air'', ''rh'', ''ws'', ''wd'', ''bp'', ''GHI'', ''DNI'', ''DHI''] =
         [''temp_air'', ''relative_humidity'', ''wind_speed'', ''wind_direction'',
          ''air_pressure'', ''ghi'', ''dni'', ''dhi''] \<and>
         (l \<notin> set (keys MESOR_VARIABLE_MAP) \<longrightarrow> rename_label MESOR_VARIABLE_MAP l = l) \<and>
         (c \<notin> set (map snd MESOR_VARIABLE_MAP) \<longrightarrow>
            rename_label (reverse_dict MESOR_VARIABLE_MAP) (rename_label MESOR_VARIABLE_MAP c) = c)"
  using returned_columns(1) [OF assms]
    keys_rename [of "kept_frame m data" MESOR_VARIABLE_MAP]
    rename_cells [of "kept_frame m data" MESOR_VARIABLE_MAP] rename_label_table
    rename_label_unmapped [of l] rename_label_round_trip [of c]
  by blast

theorem map_variables_renames_witness:
  "header_scan station_file =
     Some (Inr (station_data, station_meta, [''date'', ''time'', ''GHI'', ''NoMV''])) \<and>
   read_csv sample_pandas [''date'', ''time'', ''GHI'', ''NoMV''] station_data =
     Inr [(''date'', [Text ''2005-02-01'']), (''time'', [Text ''01:00'']),
          (''GHI'', [NaN]), (''NoMV'', [Text ''0.0''])] \<and>
   kept_frame station_meta
     [(''date'', [Text ''2005-02-01'']), (''time'', [Text ''01:00'']),
      (''GHI'', [NaN]), (''NoMV'', [Text ''0.0''])] =
     [(''GHI'', [NaN]), (''NoMV'', [Text ''0.0''])] \<and>
   parse_mesor sample_pandas station_file False =
     Some (Inr (\<lparr>columns = [(''GHI'', [NaN]), (''NoMV'', [Text ''0.0''])],
                 index = [Text ''2005-02-01 01:00''], tz = Some ''Etc/GMT+1''\<rparr>,
                station_meta)) \<and>
   parse_mesor sample_pandas station_file True =
     Some (Inr (\<lparr>columns = [(''ghi'', [NaN]), (''NoMV'', [Text ''0.0''])],
                 index = [Text ''2005-02-01 01:00''], tz = Some ''Etc/GMT+1''\<rparr>,
                station_meta)) \<and>
   rename [(''GHI'', [NaN]), (''NoMV'', [Text ''0.0''])] MESOR_VARIABLE_MAP =
     [(''ghi'', [NaN]), (''NoMV'', [Text ''0.0''])] \<and>
   ''ws_gust'' \<notin> set (keys MESOR_VARIABLE_MAP) \<and>
   rename_label MESOR_VARIABLE_MAP ''ws_gust'' = ''ws_gust'' \<and>
   ''GHI'' \<notin> set (map snd MESOR_VARIABLE_MAP) \<and>
   rename_label (reverse_dict MESOR_VARIABLE_MAP) (rename_label MESOR_VARIABLE_MAP ''GHI'') = ''GHI''"
proof -
  have k: "kept_frame station_meta
     [(''date'', [Text ''2005-02-01'']), (''time'', [Text ''01:00'']),
      (''GHI'', [NaN]), (''NoMV'', [Text ''0.0''])] =
     [(''GHI'', [NaN]), (''NoMV'', [Text ''0.0''])]"
    by code_simp
  have a: "''ws_gust'' \<notin> set (keys MESOR_VARIABLE_MAP)"
    by (simp add: MESOR_VARIABLE_MAP_def keys_def)
  have b: "''GHI'' \<notin> set (map snd MESOR_VARIABLE_MAP)"
    by (simp add: MESOR_VARIABLE_MAP_def)
  note f = map_variables_renames [OF station_header_scan station_read_csv station_file_parse,
      of "''ws_gust''" "''GHI''"]
  note t = map_variables_renames [OF station_header_scan station_read_csv
      station_file_parse_mapped, of "''ws_gust''" "''GHI''"]
  from t have r: "rename [(''GHI'', [NaN]), (''NoMV'', [Text ''0.0''])] MESOR_VARIABLE_MAP =
     [(''ghi'', [NaN]), (''NoMV'', [Text ''0.0''])]"
    by (simp add: k)
  from f a have c: "rename_label MESOR_VARIABLE_MAP ''ws_gust'' = ''ws_gust''"
    by blast
  from f b have d: "rename_label (reverse_dict MESOR_VARIABLE_MAP)
      (rename_label MESOR_VARIABLE_MAP ''GHI'') = ''GHI''"
    by blast
  from station_header_scan station_read_csv k station_file_parse station_file_parse_mapped
    r a c b d
  show ?thesis by blast
qed

text \<open>
  Claim C8, as first stated, fails. The reverse dictionary does not recover every
  channel code: a channel declared as \<open>ghi\<close> keeps its label, and the reverse
  dictionary turns it into \<open>GHI\<close>.
\<close>

theorem reverse_dict_counterexample:
  "parse_mesor sample_pandas lowercase_file True =
     Some (Inr (\<lparr>columns = [(''ghi'', [Text ''5.0''])],
                 index = [Text ''2005-02-01 01:00''], tz = Some ''Etc/GMT+1''\<rparr>,
                header_meta ''UTC+1''
                  [(''date'', ''day''), (''time'', ''hour''), (''ghi'', ''global'')])) \<and>
   keys (rename [(''ghi'', [Text ''5.0''])] (reverse_dict MESOR_VARIABLE_MAP)) = [''GHI'']"
  by code_simp

section \<open>Channels and the columns of the table\<close>

text \<open>
  Claim C4, as amended. Let a table be returned, let no channel code be declared twice,
  and let the frame that \<open>read_csv\<close> returned carry the names it was given as its labels
  (as it does on the modelled fragment). Then the columns of that frame are, from left
  to right, exactly the declared channel codes in first-seen order, the keys of
  \<open>channels\<close>. \<open>date\<close> and \<open>time\<close> are not additional columns: they are among the
  declared channels. The labels of the returned table are
  the keys of \<open>channels\<close> in order, without \<open>date\<close> and \<open>time\<close> unless the time zone
  is \<open>TST\<close>, renamed when \<open>map_variables\<close> is true.
\<close>

theorem columns_are_the_channels:
  assumes "header_scan fbuf = Some (Inr (rest, m, names))"
    and "read_csv lib names rest = Inr data"
    and "keys data = names"
    and "distinct names"
    and "parse_mesor lib fbuf map_variables = Some (Inr (tab, m'))"
  shows "m' = m \<and> names = keys (channels m) \<and> keys data = keys (channels m) \<and>
         ''date'' \<in> set (keys (channels m)) \<and> ''time'' \<in> set (keys (channels m)) \<and>
         keys (columns tab) =
           map (output_label map_variables)
             (filter (\<lambda>l. timezone m = TzStr ''TST'' \<or> l \<notin> set [''date'', ''time''])
                (keys (channels m)))"
proof -
  from assms(1,4) have k: "keys (channels m) = names" by (rule header_scan_channels)
  note rc = returned_columns [OF assms(1,2,5)]
  have "keys (columns tab) = map (output_label map_variables) (keys (kept_frame m data))"
    unfolding rc(1) by (simp add: keys_rename map_output_label)
  then have l: "keys (columns tab) =
           map (output_label map_variables)
             (filter (\<lambda>l. timezone m = TzStr ''TST'' \<or> l \<notin> set [''date'', ''time'']) names)"
    by (simp only: keys_kept_frame assms(3))
  from rc(2-4) k l assms(3) show ?thesis by simp
qed

theorem columns_are_the_channels_witness:
  "header_scan station_file =
     Some (Inr (station_data, station_meta, [''date'', ''time'', ''GHI'', ''NoMV''])) \<and>
   read_csv sample_pandas [''date'', ''time'', ''GHI'', ''NoMV''] station_data =
     Inr [(''date'', [Text ''2005-02-01'']), (''time'', [Text ''01:00'']),
          (''GHI'', [NaN]), (''NoMV'', [Text ''0.0''])] \<and>
   keys [(''date'', [Text ''2005-02-01'']), (''time'', [Text ''01:00'']),
         (''GHI'', [NaN]), (''NoMV'', [Text ''0.0''])] = [''date'', ''time'', ''GHI'', ''NoMV''] \<and>
   distinct [''date'', ''time'', ''GHI'', ''NoMV''] \<and>
   parse_mesor sample_pandas station_file False =
     Some (Inr (\<lparr>columns = [(''GHI'', [NaN]), (''NoMV'', [Text ''0.0''])],
                 index = [Text ''2005-02-01 01:00''], tz = Some ''Etc/GMT+1''\<rparr>,
                station_meta)) \<and>
   keys (channels station_meta) = [''date'', ''time'', ''GHI'', ''NoMV''] \<and>
   keys [(''GHI'', [NaN]), (''NoMV'', [Text ''0.0''])] =
     map (output_label False)
       (filter (\<lambda>l. timezone station_meta = TzStr ''TST'' \<or> l \<notin> set [''date'', ''time''])
          (keys (channels station_meta)))"
proof -
  have k: "keys [(''date'', [Text ''2005-02-01'']), (''time'', [Text ''01:00'']),
         (''GHI'', [NaN]), (''NoMV'', [Text ''0.0''])] = [''date'', ''time'', ''GHI'', ''NoMV'']"
    by (simp add: keys_def)
  have d: "distinct [''date'', ''time'', ''GHI'', ''NoMV'']"
    by simp
  from columns_are_the_channels [OF station_header_scan station_read_csv k d station_file_parse]
    station_header_scan station_read_csv k d station_file_parse
  show ?thesis by simp
qed

text \<open>
  Claim C4, as first stated, fails. In a file that is parsed into a table, \<open>date\<close>
  and \<open>time\<close> are keys of \<open>channels\<close>, and the columns of the data section are the
  four declared channels, not two more.
\<close>

theorem date_and_time_are_channels:
  "parse_mesor sample_pandas station_file False =
     Some (Inr (\<lparr>columns = [(''GHI'', [NaN]), (''NoMV'', [Text ''0.0''])],
                 index = [Text ''2005-02-01 01:00''], tz = Some ''Etc/GMT+1''\<rparr>,
                station_meta)) \<and>
   keys (channels station_meta) = [''date'', ''time'', ''GHI'', ''NoMV''] \<and>
   csv_rows station_data = [[''2005-02-01'', ''01:00'', ''-9999'', ''0.0'']]"
  by code_simp

section \<open>Rows with fewer fields\<close>

lemma read_csv_plain:
  assumes "plain_section names s"
  shows "read_csv lib names s =
     Inr (map (\<lambda>j. (names ! j, read_column lib (csv_rows s) j)) [0..<length names])"
  using assms by (simp add: read_csv_def)

lemma keys_read_csv_plain:
  "keys (map (\<lambda>j. (names ! j, read_column lib rows j)) [0..<length names]) = names"
  by (simp add: keys_def comp_def map_nth)

lemma read_column_cell:
  assumes "i < length rows"
  shows "read_column lib rows j ! i =
     (if j < length (rows ! i)
      then (if rows ! i ! j \<in> set na_values \<or> other_na lib (column_fields rows j) (rows ! i ! j)
            then NaN else Text (rows ! i ! j))
      else NaN)"
  using assms by (simp add: read_column_def read_cell_def)

lemma parse_mesor_plain:
  assumes "header_scan fbuf = Some (Inr (rest, m, names))"
    and "plain_section names rest"
  shows "parse_mesor lib fbuf map_variables =
     Some (finish_table lib
       (map (\<lambda>j. (names ! j, read_column lib (csv_rows rest) j)) [0..<length names])
       m map_variables)"
  using assms by (simp add: parse_mesor_def build_table_def read_csv_plain get_def)

text \<open>
  Claim C3, as amended. The code has no check of the number of fields of a row. Take a
  data section of the modelled fragment: channel codes declared once each, no double
  quote and no carriage return, a first row with as many fields as there are declared
  columns and no row with more. There a row with fewer fields raises nothing:
  \<open>read_csv\<close> returns a frame with the declared columns, the cells for which a row has
  no field hold the missing-value marker, and the call goes on with lines 153 to 163 on
  that frame.
\<close>

theorem short_rows_are_padded:
  assumes "header_scan fbuf = Some (Inr (rest, m, names))"
    and "plain_section names rest"
  shows "\<exists>data. read_csv lib names rest = Inr data \<and> keys data = names \<and>
           parse_mesor lib fbuf map_variables = Some (finish_table lib data m map_variables) \<and>
           (\<forall>i < length (csv_rows rest). \<forall>j < length names.
              length (csv_rows rest ! i) \<le> j \<longrightarrow> snd (data ! j) ! i = NaN)"
proof -
  let ?data = "map (\<lambda>j. (names ! j, read_column lib (csv_rows rest) j)) [0..<length names]"
  have "read_csv lib names rest = Inr ?data"
    using assms(2) by (rule read_csv_plain)
  moreover have "keys ?data = names"
    by (rule keys_read_csv_plain)
  moreover have "parse_mesor lib fbuf map_variables = Some (finish_table lib ?data m map_variables)"
    using assms by (rule parse_mesor_plain)
  moreover have "\<forall>i < length (csv_rows rest). \<forall>j < length names.
              length (csv_rows rest ! i) \<le> j \<longrightarrow> snd (?data ! j) ! i = NaN"
    by (simp add: read_column_cell)
  ultimately show ?thesis by blast
qed

lemma ragged_header_scan:
  "header_scan ragged_file =
     Some (Inr (ragged_data, station_meta, [''date'', ''time'', ''GHI'', ''NoMV'']))"
  by code_simp

lemma ragged_plain:
  "plain_section [''date'', ''time'', ''GHI'', ''NoMV''] ragged_data"
  by code_simp

lemma ragged_rows:
  "csv_rows ragged_data =
     [[''2005-02-01'', ''01:00'', ''5.0'', ''1.0''], [''2005-02-01'', ''02:00'', ''6.0'']]"
  by code_simp

theorem short_rows_are_padded_witness:
  "header_scan ragged_file =
     Some (Inr (ragged_data, station_meta, [''date'', ''time'', ''GHI'', ''NoMV''])) \<and>
   plain_section [''date'', ''time'', ''GHI'', ''NoMV''] ragged_data \<and>
   csv_rows ragged_data =
     [[''2005-02-01'', ''01:00'', ''5.0'', ''1.0''], [''2005-02-01'', ''02:00'', ''6.0'']] \<and>
   (\<exists>data. read_csv sample_pandas [''date'', ''time'', ''GHI'', ''NoMV''] ragged_data = Inr data \<and>
           keys data = [''date'', ''time'', ''GHI'', ''NoMV''] \<and>
           parse_mesor sample_pandas ragged_file False =
             Some (finish_table sample_pandas data station_meta False) \<and>
           snd (data ! 3) ! 1 = NaN)"
proof -
  from short_rows_are_padded [OF ragged_header_scan ragged_plain, of sample_pandas False]
  obtain data where
    d: "read_csv sample_pandas [''date'', ''time'', ''GHI'', ''NoMV''] ragged_data = Inr data"
       "keys data = [''date'', ''time'', ''GHI'', ''NoMV'']"
       "parse_mesor sample_pandas ragged_file False =
          Some (finish_table sample_pandas data station_meta False)" and
    pad: "\<forall>i < length (csv_rows ragged_data).
            \<forall>j < length [''date'', ''time'', ''GHI'', ''NoMV''].
              length (csv_rows ragged_data ! i) \<le> j \<longrightarrow> snd (data ! j) ! i = NaN"
    by blast
  from pad [rule_format, of 1 3] have "snd (data ! 3) ! 1 = NaN"
    by (simp add: ragged_rows)
  with d ragged_header_scan ragged_plain ragged_rows show ?thesis
    by blast
qed

text \<open>
  Claim C3, as first stated, fails. After a row with all four fields, a row with one
  field fewer than the declared channels: the call returns a table, with the
  missing-value marker in the last column of that row.
\<close>

theorem short_row_is_accepted:
  "parse_mesor sample_pandas ragged_file False =
     Some (Inr (\<lparr>columns = [(''GHI'', [Text ''5.0'', Text ''6.0'']),
                             (''NoMV'', [Text ''1.0'', NaN])],
                 index = [Text ''2005-02-01 01:00'', Text ''2005-02-01 02:00''],
                 tz = Some ''Etc/GMT+1''\<rparr>,
                station_meta))"
  by code_simp

end
